theory Spec2Isabelle
  imports Complex_Main
begin

section \<open>Scene objects\<close>

text \<open>
  A \<^verbatim>\<open>THREE.Object3D\<close> as the viewer reads it: its \<^verbatim>\<open>uuid\<close>, \<^verbatim>\<open>name\<close>, \<^verbatim>\<open>type\<close>
  string, \<^verbatim>\<open>isMesh\<close> flag, \<^verbatim>\<open>parent\<close> and \<^verbatim>\<open>children\<close>. The scene graph is a finite tree,
  so the children are a list of objects. The state store follows \<^verbatim>\<open>parent\<close> upwards and
  reads nothing but the \<^verbatim>\<open>uuid\<close> and the \<^verbatim>\<open>parent\<close> of what it meets there, so the
  \<^verbatim>\<open>parent\<close> field holds that chain of ancestors (\<open>None\<close> is \<^verbatim>\<open>null\<close>).
\<close>

datatype ancestor = Ancestor (ancestor_uuid: string) (ancestor_parent: "ancestor option")

datatype object3d =
  Object3D (uuid: string) (name: string) (otype: string) (isMesh: bool)
    (parent: "ancestor option") (children: "object3d list")

text \<open>
  \<^verbatim>\<open>Object3D.traverse(callback)\<close> of three.js calls the callback on the object and then
  traverses each child in order; \<open>traverse\<close> is the list of objects the callback sees.
\<close>

fun traverse :: "object3d \<Rightarrow> object3d list" where
  "traverse (Object3D u n t m p cs) = Object3D u n t m p cs # concat (map traverse cs)"

section \<open>JavaScript numbers\<close>

text \<open>
  A JavaScript number is a finite value, one of the two infinities, or NaN. The store only
  compares and selects numbers (\<^verbatim>\<open>Number.isFinite\<close>, \<^verbatim>\<open>Math.max\<close>, \<^verbatim>\<open>Math.min\<close>), which
  involves no rounding, so a finite value is modelled by the real number it denotes.
\<close>

datatype js_number = Finite real | PosInfinity | NegInfinity | NaN

fun Number_isFinite :: "js_number \<Rightarrow> bool" where
  "Number_isFinite (Finite r) = True"
| "Number_isFinite n = False"

fun Math_max :: "js_number \<Rightarrow> js_number \<Rightarrow> js_number" where
  "Math_max NaN b = NaN"
| "Math_max a NaN = NaN"
| "Math_max PosInfinity b = PosInfinity"
| "Math_max a PosInfinity = PosInfinity"
| "Math_max NegInfinity b = b"
| "Math_max a NegInfinity = a"
| "Math_max (Finite x) (Finite y) = Finite (max x y)"

fun Math_min :: "js_number \<Rightarrow> js_number \<Rightarrow> js_number" where
  "Math_min NaN b = NaN"
| "Math_min a NaN = NaN"
| "Math_min NegInfinity b = NegInfinity"
| "Math_min a NegInfinity = NegInfinity"
| "Math_min PosInfinity b = b"
| "Math_min a PosInfinity = a"
| "Math_min (Finite x) (Finite y) = Finite (min x y)"

section \<open>Plain objects used as dictionaries\<close>

text \<open>
  The store keeps its object map and its cache in plain JavaScript objects (\<^verbatim>\<open>{}\<close>) and
  reads them with \<^verbatim>\<open>object[key]\<close>. The own properties of such an object are a map from its
  keys. A key that is not an own property is looked up in \<^verbatim>\<open>Object.prototype\<close>, whose
  members every plain object inherits; the lookup yields \<^verbatim>\<open>undefined\<close> only for a key that
  is neither. The inherited members are functions, but for \<^verbatim>\<open>__proto__\<close>, which yields the
  prototype object itself; all of them count as true in a condition, and none of them has a
  \<^verbatim>\<open>traverse\<close> method. The own keys are taken not to include \<^verbatim>\<open>__proto__\<close>: an object
  filled by assignment, as the application fills the map and the store the cache, has no
  such own property.
\<close>

datatype 'a property = Undefined | Own 'a | Inherited string

definition objectPrototypeMembers :: "string list" where
  "objectPrototypeMembers =
     [''constructor'', ''__defineGetter__'', ''__defineSetter__'', ''hasOwnProperty'',
      ''__lookupGetter__'', ''__lookupSetter__'', ''isPrototypeOf'', ''propertyIsEnumerable'',
      ''toString'', ''valueOf'', ''__proto__'', ''toLocaleString'']"

definition getProperty :: "(string \<rightharpoonup> 'a) \<Rightarrow> string \<Rightarrow> 'a property" where
  "getProperty obj key =
     (case obj key of
        Some v \<Rightarrow> Own v
      | None \<Rightarrow> if key \<in> set objectPrototypeMembers then Inherited key else Undefined)"

text \<open>
  \<^verbatim>\<open>obj.name || obj.uuid || "(unnamed)"\<close> on an inherited member: a function carries its
  name (\<^verbatim>\<open>Object\<close> for \<^verbatim>\<open>constructor\<close>, the key for the others) and has no \<^verbatim>\<open>uuid\<close>; the
  prototype object has neither.
\<close>

definition memberDisplayName :: "string \<Rightarrow> string" where
  "memberDisplayName key =
     (if key = ''__proto__'' then ''(unnamed)''
      else if key = ''constructor'' then ''Object''
      else key)"

text \<open>
  Calling \<^verbatim>\<open>traverse\<close> on an inherited member raises a \<^verbatim>\<open>TypeError\<close>. An action that
  raises has not called \<^verbatim>\<open>set\<close> yet, so it leaves the store as it was.
\<close>

datatype js_error = TypeError

section \<open>The viewer state store\<close>

text \<open>The hierarchy tree shown in the panel (\<^verbatim>\<open>{ id, name, children }\<close>); the store only keeps it.\<close>

datatype hierarchy_item =
  HierarchyItem (item_id: string) (item_name: string) (item_children: "hierarchy_item list")

text \<open>
  What \<^verbatim>\<open>selectedIds\<close> can hold: an array of uuids, or the inherited member that
  \<^verbatim>\<open>meshDescendantsCacheRef[id] || []\<close> yields for a key such as \<^verbatim>\<open>toString\<close>.
\<close>

datatype id_list = IdList "string list" | InheritedValue string

text \<open>
  The fields of the zustand store, together with the two module-level variables
  \<^verbatim>\<open>objectMapRef\<close> and \<^verbatim>\<open>meshDescendantsCacheRef\<close> that its actions read and write (their
  own properties). \<open>None\<close> stands for \<^verbatim>\<open>null\<close>, and the \<^verbatim>\<open>Set\<close> of hidden uuids is a set
  (the store only tests membership). Identifiers are strings.
\<close>

record store =
  isLoading :: bool
  selectedItem :: "string option"
  selectedId :: "string option"
  selectedIds :: id_list
  items :: "hierarchy_item list"
  hiddenObjects :: "string set"
  isolationMode :: bool
  individualIsolatedId :: "string option"
  explosionFactor :: js_number
  objectMapRef :: "string \<rightharpoonup> object3d"
  meshDescendantsCacheRef :: "string \<rightharpoonup> string list"

definition initialStore :: store where
  "initialStore =
     \<lparr> isLoading = True, selectedItem = None, selectedId = None, selectedIds = IdList [],
       items = [], hiddenObjects = {}, isolationMode = False, individualIsolatedId = None,
       explosionFactor = Finite 0, objectMapRef = Map.empty,
       meshDescendantsCacheRef = Map.empty \<rparr>"

text \<open>The store after a call: the new store, or the old one when the call raised.\<close>

definition storeAfter :: "store \<Rightarrow> js_error + store \<Rightarrow> store" where
  "storeAfter st result = (case result of Inl err \<Rightarrow> st | Inr st' \<Rightarrow> st')"

text \<open>
  \<^verbatim>\<open>buildMeshDescendantsCache\<close>: every own key of the map (\<^verbatim>\<open>Object.entries\<close>) gets one
  entry, \<^verbatim>\<open>[uuid]\<close> (the key) for an object of type \<^verbatim>\<open>"Mesh"\<close>, and otherwise the uuids of
  the objects of type \<^verbatim>\<open>"Mesh"\<close> met by traversing the object.
\<close>

definition buildMeshDescendantsCache :: "(string \<rightharpoonup> object3d) \<Rightarrow> (string \<rightharpoonup> string list)" where
  "buildMeshDescendantsCache m =
     (\<lambda>key. case m key of
        None \<Rightarrow> None
      | Some obj \<Rightarrow>
          if otype obj = ''Mesh'' then Some [key]
          else Some (fold (\<lambda>child meshIds. if otype child = ''Mesh'' then meshIds @ [uuid child] else meshIds)
                      (traverse obj) []))"

definition setLoading :: "bool \<Rightarrow> store \<Rightarrow> store" where
  "setLoading loading st = st\<lparr>isLoading := loading\<rparr>"

definition setSelectedItem :: "string option \<Rightarrow> store \<Rightarrow> store" where
  "setSelectedItem nm st = st\<lparr>selectedItem := nm\<rparr>"

text \<open>
  \<^verbatim>\<open>setExplosionFactor\<close>. \<^verbatim>\<open>Number(value)\<close> is the language's own coercion of an arbitrary
  value; it is the parameter \<open>toNumber\<close>.
\<close>

definition setExplosionFactor :: "('v \<Rightarrow> js_number) \<Rightarrow> 'v \<Rightarrow> store \<Rightarrow> store" where
  "setExplosionFactor toNumber v st =
     (let parsed = toNumber v;
          safeValue = (if Number_isFinite parsed
                       then Math_min (Math_max parsed (Finite 0)) (Finite 1)
                       else Finite 0)
      in st\<lparr>explosionFactor := safeValue\<rparr>)"

definition resetExplosion :: "store \<Rightarrow> store" where
  "resetExplosion st = st\<lparr>explosionFactor := Finite 0\<rparr>"

text \<open>
  \<^verbatim>\<open>toggleVisibility\<close>: \<^verbatim>\<open>if (!obj) return\<close> lets an inherited member through, and
  \<^verbatim>\<open>obj.traverse\<close> raises on it.
\<close>

definition toggleVisibility :: "string \<Rightarrow> store \<Rightarrow> js_error + store" where
  "toggleVisibility ident st =
     (case getProperty (objectMapRef st) ident of
        Undefined \<Rightarrow> Inr st
      | Inherited key \<Rightarrow> Inl TypeError
      | Own obj \<Rightarrow>
          (let hidden = hiddenObjects st;
               isCurrentlyHidden = (ident \<in> hidden);
               descendants = fold (\<lambda>child ds. ds @ [uuid child]) (traverse obj) [];
               hidden' = (if isCurrentlyHidden
                          then fold (\<lambda>u h. h - {u}) descendants hidden
                          else fold (\<lambda>u h. insert u h) descendants hidden)
           in Inr (st\<lparr>hiddenObjects := hidden'\<rparr>)))"

definition isObjectVisible :: "string \<Rightarrow> store \<Rightarrow> bool" where
  "isObjectVisible ident st = (ident \<notin> hiddenObjects st)"

text \<open>The loop \<^verbatim>\<open>while (parent) { visibleUuids.add(parent.uuid); parent = parent.parent; }\<close>.\<close>

fun addAncestors :: "ancestor option \<Rightarrow> string set \<Rightarrow> string set" where
  "addAncestors None visibleUuids = visibleUuids"
| "addAncestors (Some (Ancestor u p)) visibleUuids = addAncestors p (insert u visibleUuids)"

text \<open>A string used as a condition is true unless it is \<^verbatim>\<open>null\<close> or empty.\<close>

fun truthy :: "string option \<Rightarrow> bool" where
  "truthy None = False"
| "truthy (Some s) = (s \<noteq> [])"

text \<open>
  \<^verbatim>\<open>objectMapRef[selectedId]\<close> for the selected id, which is not \<^verbatim>\<open>null\<close> where the
  actions read it.
\<close>

definition selectedProperty :: "store \<Rightarrow> object3d property" where
  "selectedProperty st =
     (case selectedId st of None \<Rightarrow> Undefined | Some sid \<Rightarrow> getProperty (objectMapRef st) sid)"

definition toggleIsolationMode :: "store \<Rightarrow> js_error + store" where
  "toggleIsolationMode st =
     (if \<not> isolationMode st \<and> truthy (selectedId st) then
        (let hidden =
           (case selectedProperty st of
              Undefined \<Rightarrow> Inr {}
            | Inherited key \<Rightarrow> Inl TypeError
            | Own selectedObj \<Rightarrow>
                (let visibleUuids = fold (\<lambda>child vs. insert (uuid child) vs) (traverse selectedObj) {};
                     visibleUuids = addAncestors (parent selectedObj) visibleUuids
                 in Inr {k \<in> dom (objectMapRef st). k \<notin> visibleUuids}))
         in case hidden of
              Inl err \<Rightarrow> Inl err
            | Inr hiddenSet \<Rightarrow>
                Inr (st\<lparr>hiddenObjects := hiddenSet, isolationMode := True,
                        individualIsolatedId := None\<rparr>))
      else Inr (st\<lparr>hiddenObjects := {}, isolationMode := False, individualIsolatedId := None\<rparr>))"

definition showAll :: "store \<Rightarrow> store" where
  "showAll st = st\<lparr>hiddenObjects := {}, isolationMode := False, individualIsolatedId := None\<rparr>"

definition toggleIndividualIsolation :: "string \<Rightarrow> store \<Rightarrow> js_error + store" where
  "toggleIndividualIsolation ident st =
     (if individualIsolatedId st = Some ident then
        Inr (st\<lparr>hiddenObjects := {}, individualIsolatedId := None\<rparr>)
      else
        (let hidden =
           (case getProperty (objectMapRef st) ident of
              Undefined \<Rightarrow> Inr {}
            | Inherited key \<Rightarrow> Inl TypeError
            | Own targetObj \<Rightarrow>
                (let visibleUuids = fold (\<lambda>child vs. insert (uuid child) vs) (traverse targetObj) {};
                     visibleUuids = addAncestors (parent targetObj) visibleUuids
                 in Inr {k \<in> dom (objectMapRef st). k \<notin> visibleUuids}))
         in case hidden of
              Inl err \<Rightarrow> Inl err
            | Inr hiddenSet \<Rightarrow>
                Inr (st\<lparr>hiddenObjects := hiddenSet, individualIsolatedId := Some ident\<rparr>)))"

definition isIndividuallyIsolated :: "string \<Rightarrow> store \<Rightarrow> bool" where
  "isIndividuallyIsolated ident st = (individualIsolatedId st = Some ident)"

text \<open>\<^verbatim>\<open>obj.name || obj.uuid || "(unnamed)"\<close>: the first of the three that is not empty.\<close>

definition displayName :: "object3d \<Rightarrow> string" where
  "displayName obj =
     (if name obj \<noteq> [] then name obj else if uuid obj \<noteq> [] then uuid obj else ''(unnamed)'')"

definition setSelectedObject :: "object3d option \<Rightarrow> store \<Rightarrow> store" where
  "setSelectedObject objOpt st =
     (case objOpt of
        None \<Rightarrow> st\<lparr>selectedItem := None, selectedId := None, selectedIds := IdList []\<rparr>
      | Some obj \<Rightarrow>
          st\<lparr>selectedItem := Some (displayName obj), selectedId := Some (uuid obj),
             selectedIds := IdList [uuid obj]\<rparr>)"

text \<open>\<^verbatim>\<open>meshDescendantsCacheRef[id] || []\<close>: an array and an inherited member both count as true.\<close>

definition getDescendantMeshIds :: "string \<Rightarrow> store \<Rightarrow> id_list" where
  "getDescendantMeshIds ident st =
     (case getProperty (meshDescendantsCacheRef st) ident of
        Undefined \<Rightarrow> IdList []
      | Own meshIds \<Rightarrow> IdList meshIds
      | Inherited key \<Rightarrow> InheritedValue key)"

definition setSelectedById :: "string \<Rightarrow> store \<Rightarrow> store" where
  "setSelectedById ident st =
     (case getProperty (objectMapRef st) ident of
        Undefined \<Rightarrow> st\<lparr>selectedId := None, selectedItem := None, selectedIds := IdList []\<rparr>
      | Own obj \<Rightarrow>
          (let meshIds = getDescendantMeshIds ident st
           in st\<lparr>selectedItem := Some (displayName obj), selectedId := Some ident,
                 selectedIds := meshIds\<rparr>)
      | Inherited key \<Rightarrow>
          (let meshIds = getDescendantMeshIds ident st
           in st\<lparr>selectedItem := Some (memberDisplayName key), selectedId := Some ident,
                 selectedIds := meshIds\<rparr>))"

definition setItems :: "hierarchy_item list \<Rightarrow> store \<Rightarrow> store" where
  "setItems list st = st\<lparr>items := list\<rparr>"

text \<open>\<^verbatim>\<open>setObjectMap(map)\<close>: \<^verbatim>\<open>map || {}\<close> replaces a missing map by the empty one.\<close>

definition setObjectMap :: "(string \<rightharpoonup> object3d) option \<Rightarrow> store \<Rightarrow> store" where
  "setObjectMap mapOpt st =
     (let m = (case mapOpt of None \<Rightarrow> Map.empty | Some m \<Rightarrow> m)
      in st\<lparr>objectMapRef := m, meshDescendantsCacheRef := buildMeshDescendantsCache m\<rparr>)"

text \<open>\<^verbatim>\<open>objectMapRef[id] || null\<close>: \<open>Undefined\<close> stands for the \<^verbatim>\<open>null\<close> returned.\<close>

definition getObjectById :: "string \<Rightarrow> store \<Rightarrow> object3d property" where
  "getObjectById ident st = getProperty (objectMapRef st) ident"

definition getObjectsByIds :: "string list option \<Rightarrow> store \<Rightarrow> object3d property list" where
  "getObjectsByIds ids st =
     filter (\<lambda>found. found \<noteq> Undefined)
       (map (getProperty (objectMapRef st)) (case ids of None \<Rightarrow> [] | Some l \<Rightarrow> l))"

definition clearSelection :: "store \<Rightarrow> store" where
  "clearSelection st = st\<lparr>selectedItem := None, selectedId := None, selectedIds := IdList []\<rparr>"

subsection \<open>Sequences of store operations\<close>

text \<open>
  The actions of the store that change it, as values, and the store after a list of them;
  a call that raises leaves the store to the next call as it was.
\<close>

datatype 'v operation =
    SetLoading bool
  | SetSelectedItem "string option"
  | SetExplosionFactor 'v
  | ResetExplosion
  | ToggleVisibility string
  | ToggleIsolationMode
  | ShowAll
  | ToggleIndividualIsolation string
  | SetSelectedObject "object3d option"
  | SetSelectedById string
  | SetItems "hierarchy_item list"
  | SetObjectMap "(string \<rightharpoonup> object3d) option"
  | ClearSelection

fun apply_operation :: "('v \<Rightarrow> js_number) \<Rightarrow> 'v operation \<Rightarrow> store \<Rightarrow> store" where
  "apply_operation toNumber (SetLoading b) st = setLoading b st"
| "apply_operation toNumber (SetSelectedItem nm) st = setSelectedItem nm st"
| "apply_operation toNumber (SetExplosionFactor v) st = setExplosionFactor toNumber v st"
| "apply_operation toNumber ResetExplosion st = resetExplosion st"
| "apply_operation toNumber (ToggleVisibility i) st = storeAfter st (toggleVisibility i st)"
| "apply_operation toNumber ToggleIsolationMode st = storeAfter st (toggleIsolationMode st)"
| "apply_operation toNumber ShowAll st = showAll st"
| "apply_operation toNumber (ToggleIndividualIsolation i) st =
     storeAfter st (toggleIndividualIsolation i st)"
| "apply_operation toNumber (SetSelectedObject obj) st = setSelectedObject obj st"
| "apply_operation toNumber (SetSelectedById i) st = setSelectedById i st"
| "apply_operation toNumber (SetItems l) st = setItems l st"
| "apply_operation toNumber (SetObjectMap m) st = setObjectMap m st"
| "apply_operation toNumber ClearSelection st = clearSelection st"

fun run :: "('v \<Rightarrow> js_number) \<Rightarrow> 'v operation list \<Rightarrow> store \<Rightarrow> store" where
  "run toNumber [] st = st"
| "run toNumber (op # ops) st = run toNumber ops (apply_operation toNumber op st)"

text \<open>A number that is finite and lies between 0 and 1.\<close>

fun inUnitInterval :: "js_number \<Rightarrow> bool" where
  "inUnitInterval (Finite r) = (0 \<le> r \<and> r \<le> 1)"
| "inUnitInterval n = False"

section \<open>Node selection for the exploded view\<close>

text \<open>
  The explosion code uses \<^verbatim>\<open>obj.parent\<close> as an object: it is collected as a candidate
  and traversed in its turn. In a three.js scene graph the parent of an object is the object
  whose \<^verbatim>\<open>children\<close> hold it, and the parent of the root passed in is whatever that root is
  attached to (\<open>rootParent\<close>, \<open>None\<close> for a detached root). \<open>traverseWithParent\<close> is
  \<^verbatim>\<open>traverse\<close> with every visited object paired with that parent object.
\<close>

fun traverseWithParent :: "object3d option \<Rightarrow> object3d \<Rightarrow> (object3d \<times> object3d option) list" where
  "traverseWithParent par (Object3D u n t m p cs) =
     (Object3D u n t m p cs, par)
       # concat (map (traverseWithParent (Some (Object3D u n t m p cs))) cs)"

definition hasMeshDescendant :: "object3d \<Rightarrow> bool" where
  "hasMeshDescendant object3D =
     fold (\<lambda>child found. if isMesh child then True else found) (traverse object3D) False"

definition getMeshNodes :: "object3d \<Rightarrow> object3d list" where
  "getMeshNodes rootObj =
     fold (\<lambda>obj meshes. if isMesh obj then meshes @ [obj] else meshes) (traverse rootObj) []"

text \<open>
  \<^verbatim>\<open>getUniqueMeshParents\<close>: the \<^verbatim>\<open>Map\<close> from parent uuid to parent keeps its entries in
  the order they were first set, so it is a list of pairs.
\<close>

definition getUniqueMeshParents :: "object3d option \<Rightarrow> object3d \<Rightarrow> object3d list" where
  "getUniqueMeshParents rootParent rootObj =
     map snd
       (fold (\<lambda>(obj, par) parentsByUuid.
                case par of
                  None \<Rightarrow> parentsByUuid
                | Some p \<Rightarrow>
                    if \<not> isMesh obj then parentsByUuid
                    else if uuid p \<in> fst ` set parentsByUuid then parentsByUuid
                    else parentsByUuid @ [(uuid p, p)])
          (traverseWithParent rootParent rootObj) [])"

definition pickExplosionNodes :: "object3d option \<Rightarrow> object3d \<Rightarrow> object3d list" where
  "pickExplosionNodes rootParent rootObj =
     (let candidates = filter hasMeshDescendant (children rootObj);
          candidates =
            (if length candidates \<le> 1 \<and> candidates \<noteq> [] then
               (let nestedCandidates = filter hasMeshDescendant (children (hd candidates))
                in if length nestedCandidates > 0 then nestedCandidates else candidates)
             else candidates);
          candidates =
            (if length candidates < 6 then
               (let meshParents = filter hasMeshDescendant (getUniqueMeshParents rootParent rootObj)
                in if length meshParents > length candidates then meshParents else candidates)
             else candidates);
          candidates = (if length candidates < 3 then getMeshNodes rootObj else candidates)
      in candidates)"

text \<open>
  The start of \<^verbatim>\<open>buildExplosionTargets\<close>: the picked nodes, with every mesh pushed onto
  the list when it is empty.
\<close>

definition explosionNodes :: "object3d option \<Rightarrow> object3d \<Rightarrow> object3d list" where
  "explosionNodes rootParent rootObj =
     (let explosionNodes = pickExplosionNodes rootParent rootObj
      in if length explosionNodes = 0
         then fold (\<lambda>obj nodes. nodes @ [obj]) (getMeshNodes rootObj) explosionNodes
         else explosionNodes)"

subsection \<open>The adaptive ladder as the specification words it\<close>

text \<open>
  A group is usable when its subtree (the object itself included, as the source documents
  \<^verbatim>\<open>hasMeshDescendant\<close>) holds a mesh.
\<close>

definition containsMesh_spec :: "object3d \<Rightarrow> bool" where
  "containsMesh_spec obj = (\<exists>d \<in> set (traverse obj). isMesh d)"

text \<open>The flat list of all mesh nodes.\<close>

definition allMeshes_spec :: "object3d \<Rightarrow> object3d list" where
  "allMeshes_spec rootObj = filter isMesh (traverse rootObj)"

text \<open>The immediate parent of every mesh, in traversal order.\<close>

definition meshParents_spec :: "object3d option \<Rightarrow> object3d \<Rightarrow> object3d list" where
  "meshParents_spec rootParent rootObj =
     List.map_filter (\<lambda>(obj, par). if isMesh obj then par else None)
       (traverseWithParent rootParent rootObj)"

text \<open>Deduplication: the first object of each uuid is kept.\<close>

fun unique_spec :: "object3d list \<Rightarrow> object3d list" where
  "unique_spec [] = []"
| "unique_spec (p # ps) = p # unique_spec (filter (\<lambda>q. uuid q \<noteq> uuid p) ps)"

text \<open>
  The five steps: the root's children that contain a mesh; with at most one such group, that
  group's mesh-bearing children when there are any; with fewer than 6 groups, the unique
  parents of the meshes when they are strictly more; with fewer than 3 groups, all meshes;
  and all meshes for an empty result.
\<close>

definition ladder_spec :: "object3d option \<Rightarrow> object3d \<Rightarrow> object3d list" where
  "ladder_spec rootParent rootObj =
     (let step1 = filter containsMesh_spec (children rootObj);
          step2 = (case step1 of
                     [g] \<Rightarrow> (let nested = filter containsMesh_spec (children g)
                              in if nested \<noteq> [] then nested else step1)
                   | _ \<Rightarrow> step1);
          parents = unique_spec (meshParents_spec rootParent rootObj);
          step3 = (if length step2 < 6 \<and> length step2 < length parents then parents else step2);
          step4 = (if length step3 < 3 then allMeshes_spec rootObj else step3)
      in if step4 = [] then allMeshes_spec rootObj else step4)"

text \<open>
  Consistency of the scene graph at the root: when the root has a parent, it is one of that
  parent's children.
\<close>

fun attachedTo :: "object3d option \<Rightarrow> object3d \<Rightarrow> bool" where
  "attachedTo None rootObj = True"
| "attachedTo (Some rootParent) rootObj = (rootObj \<in> set (children rootParent))"

section \<open>Invariants of the store\<close>





section \<open>An example scene\<close>

text \<open>
  A model root \<open>r\<close> attached to the canvas scene \<open>s\<close>, with a group \<open>g\<close> holding the mesh
  \<open>m\<close>, and a mesh \<open>n\<close> beside the group. The object map registers every object of the
  model under its uuid, as \<^verbatim>\<open>InteractiveModel\<close> builds it.
\<close>

definition meshM :: object3d where
  "meshM = Object3D ''m'' ''bolt'' ''Mesh'' True
     (Some (Ancestor ''g'' (Some (Ancestor ''r'' (Some (Ancestor ''s'' None)))))) []"

definition groupG :: object3d where
  "groupG = Object3D ''g'' ''housing'' ''Group'' False
     (Some (Ancestor ''r'' (Some (Ancestor ''s'' None)))) [meshM]"

definition meshN :: object3d where
  "meshN = Object3D ''n'' [] ''Mesh'' True (Some (Ancestor ''r'' (Some (Ancestor ''s'' None)))) []"

definition rootR :: object3d where
  "rootR = Object3D ''r'' ''motor'' ''Group'' False (Some (Ancestor ''s'' None)) [groupG, meshN]"

definition canvasScene :: object3d where
  "canvasScene = Object3D ''s'' [] ''Scene'' False None [rootR]"

definition exampleMap :: "string \<rightharpoonup> object3d" where
  "exampleMap = [''r'' \<mapsto> rootR, ''g'' \<mapsto> groupG, ''m'' \<mapsto> meshM, ''n'' \<mapsto> meshN]"

definition loadedStore :: store where
  "loadedStore = setObjectMap (Some exampleMap) initialStore"

text \<open>The loaded store after \<^verbatim>\<open>toggleVisibility("n")\<close>: the mesh \<open>n\<close> is hidden.\<close>

definition storeWithNHidden :: store where
  "storeWithNHidden = storeAfter loadedStore (toggleVisibility ''n'' loadedStore)"

text \<open>
  A deeper model: the root \<open>R\<close> holds one group \<open>G\<close>, which holds one group \<open>H\<close>, which
  holds three groups \<open>A\<close>, \<open>B\<close>, \<open>C\<close> with one mesh each.
\<close>

definition chainH :: "ancestor option" where
  "chainH = Some (Ancestor ''H'' (Some (Ancestor ''G'' (Some (Ancestor ''R'' None)))))"

definition partA :: object3d where
  "partA = Object3D ''A'' ''rotor'' ''Group'' False chainH
     [Object3D ''a'' ''rotor_mesh'' ''Mesh'' True (Some (Ancestor ''A'' chainH)) []]"

definition partB :: object3d where
  "partB = Object3D ''B'' ''stator'' ''Group'' False chainH
     [Object3D ''b'' ''stator_mesh'' ''Mesh'' True (Some (Ancestor ''B'' chainH)) []]"

definition partC :: object3d where
  "partC = Object3D ''C'' ''cover'' ''Group'' False chainH
     [Object3D ''c'' ''cover_mesh'' ''Mesh'' True (Some (Ancestor ''C'' chainH)) []]"

definition deepRoot :: object3d where
  "deepRoot = Object3D ''R'' ''scene'' ''Group'' False None
     [Object3D ''G'' ''assembly'' ''Group'' False (Some (Ancestor ''R'' None))
        [Object3D ''H'' ''core'' ''Group'' False
           (Some (Ancestor ''G'' (Some (Ancestor ''R'' None)))) [partA, partB, partC]]]"

section \<open>Evaluation of the operations\<close>

lemmas example_defs =
  meshM_def groupG_def meshN_def rootR_def canvasScene_def exampleMap_def loadedStore_def
  storeWithNHidden_def

lemmas deep_defs = chainH_def partA_def partB_def partC_def deepRoot_def

lemmas action_defs =
  setLoading_def setSelectedItem_def setExplosionFactor_def resetExplosion_def
  toggleVisibility_def toggleIsolationMode_def showAll_def toggleIndividualIsolation_def
  setSelectedObject_def setSelectedById_def setItems_def setObjectMap_def clearSelection_def
  storeAfter_def

lemmas store_defs =
  action_defs getDescendantMeshIds_def selectedProperty_def getProperty_def
  objectPrototypeMembers_def memberDisplayName_def initialStore_def

lemma storeAfter_Inr: "storeAfter st (Inr st') = st'"
  by (simp add: storeAfter_def)

lemma storeAfter_Inl: "storeAfter st (Inl err) = st"
  by (simp add: storeAfter_def)

lemma getProperty_registered: "m k = Some v \<Longrightarrow> getProperty m k = Own v"
  by (simp add: getProperty_def)

lemma getProperty_absent:
  "m k = None \<Longrightarrow>
   getProperty m k = (if k \<in> set objectPrototypeMembers then Inherited k else Undefined)"
  by (simp add: getProperty_def)


lemma fold_insert_set: "fold (\<lambda>u h. insert u h) xs H = H \<union> set xs"
  by (induction xs arbitrary: H) auto

lemma fold_delete_set: "fold (\<lambda>u h. h - {u}) xs H = H - set xs"
  by (induction xs arbitrary: H) auto

lemma fold_push_uuid: "fold (\<lambda>child ds. ds @ [uuid child]) xs acc = acc @ map uuid xs"
  by (induction xs arbitrary: acc) auto


lemma traverse_self: "obj \<in> set (traverse obj)"
  by (cases obj) simp

lemma traverse_child: "c \<in> set (children obj) \<Longrightarrow> set (traverse c) \<subseteq> set (traverse obj)"
  by (cases obj) auto

lemma toggleVisibility_registered:
  "objectMapRef st ident = Some obj \<Longrightarrow>
   toggleVisibility ident st =
     Inr (st\<lparr>hiddenObjects :=
            (if ident \<in> hiddenObjects st then hiddenObjects st - uuid ` set (traverse obj)
             else hiddenObjects st \<union> uuid ` set (traverse obj))\<rparr>)"
  by (simp add: toggleVisibility_def getProperty_registered Let_def fold_push_uuid
      fold_insert_set fold_delete_set)

section \<open>The selection and the descendant cache\<close>















text \<open>
  \<^verbatim>\<open>setSelectedObject\<close> with a group: its documentation promises the expansion to the
  descendant meshes, the code stores the uuid of the group alone.
\<close>

lemma setSelectedObject_group_not_expanded:
  "selectedIds (setSelectedObject (Some groupG) loadedStore) = IdList [''g''] \<and>
   getDescendantMeshIds ''g'' (setSelectedObject (Some groupG) loadedStore) = IdList [''m'']"
  by (simp add: store_defs example_defs buildMeshDescendantsCache_def Let_def)

text \<open>
  \<^verbatim>\<open>setSelectedById\<close> with the name of an inherited member that is not registered: the
  lookup finds the member, which is selected under its own name, and \<^verbatim>\<open>selectedIds\<close> becomes
  the member the cache inherits, not a list.
\<close>

lemma setSelectedById_inherited_member:
  "selectedItem (setSelectedById ''toString'' loadedStore) = Some ''toString'' \<and>
   selectedId (setSelectedById ''toString'' loadedStore) = Some ''toString'' \<and>
   selectedIds (setSelectedById ''toString'' loadedStore) = InheritedValue ''toString''"
  by (simp add: store_defs example_defs buildMeshDescendantsCache_def Let_def)

section \<open>Unknown identifiers\<close>

text \<open>
  C2, as the code has it. For an identifier that is absent from the object map and is not
  the name of an inherited member, neither toggle raises: \<^verbatim>\<open>toggleVisibility(id)\<close> leaves
  the whole store unchanged, and \<^verbatim>\<open>toggleIndividualIsolation(id)\<close> changes two fields only:
  it empties \<^verbatim>\<open>hiddenObjects\<close> and sets \<^verbatim>\<open>individualIsolatedId\<close> to \<^verbatim>\<open>id\<close>, or to \<^verbatim>\<open>null\<close> when
  it was \<^verbatim>\<open>id\<close> already.
\<close>

theorem unknown_id_toggles_amended:
  assumes "objectMapRef st ident = None" "ident \<notin> set objectPrototypeMembers"
  shows "toggleVisibility ident st = Inr st \<and>
         toggleIndividualIsolation ident st =
           Inr (st\<lparr>hiddenObjects := {},
                   individualIsolatedId :=
                     (if individualIsolatedId st = Some ident then None else Some ident)\<rparr>)"
  using assms
  by (simp add: toggleVisibility_def toggleIndividualIsolation_def getProperty_absent)

theorem unknown_id_toggles_witness:
  "objectMapRef loadedStore ''zz'' = None \<and>
   ''zz'' \<notin> set objectPrototypeMembers \<and>
   toggleVisibility ''zz'' loadedStore = Inr loadedStore \<and>
   individualIsolatedId (storeAfter loadedStore (toggleIndividualIsolation ''zz'' loadedStore))
     = Some ''zz''"
proof -
  have u: "objectMapRef loadedStore ''zz'' = None"
    by (simp add: store_defs example_defs Let_def)
  have p: "''zz'' \<notin> set objectPrototypeMembers"
    by (simp add: objectPrototypeMembers_def)
  have n: "individualIsolatedId loadedStore = None"
    by (simp add: store_defs example_defs Let_def)
  from unknown_id_toggles_amended [OF u p] u p n show ?thesis
    by (simp add: storeAfter_def)
qed

text \<open>
  C2 as stated fails: with \<open>n\<close> hidden, \<^verbatim>\<open>toggleIndividualIsolation\<close> on the unknown id
  \<open>zz\<close> empties the hidden set and records \<open>zz\<close> as the isolated object.
\<close>

theorem unknown_id_toggles_counterexample:
  "objectMapRef storeWithNHidden ''zz'' = None \<and>
   hiddenObjects storeWithNHidden = {''n''} \<and>
   individualIsolatedId storeWithNHidden = None \<and>
   hiddenObjects (storeAfter storeWithNHidden (toggleIndividualIsolation ''zz'' storeWithNHidden))
     = {} \<and>
   individualIsolatedId
     (storeAfter storeWithNHidden (toggleIndividualIsolation ''zz'' storeWithNHidden))
     = Some ''zz''"
  by (simp add: store_defs example_defs Let_def)

text \<open>
  An identifier that is absent from the object map and names an inherited member passes
  the guards \<^verbatim>\<open>if (!obj) return\<close> and \<^verbatim>\<open>if (targetObj)\<close>, and both toggles raise at the call
  of \<^verbatim>\<open>traverse\<close>.
\<close>

lemma inherited_member_raises:
  "objectMapRef loadedStore ''constructor'' = None \<and>
   toggleVisibility ''constructor'' loadedStore = Inl TypeError \<and>
   toggleIndividualIsolation ''constructor'' loadedStore = Inl TypeError"
  by (simp add: store_defs example_defs Let_def)

section \<open>Isolation\<close>

text \<open>
  C3, as the code has it. With no selection (\<^verbatim>\<open>selectedId\<close> is \<^verbatim>\<open>null\<close>),
  \<^verbatim>\<open>toggleIsolationMode()\<close> returns without raising, empties the hidden set, sets
  \<^verbatim>\<open>isolationMode\<close> to false and \<^verbatim>\<open>individualIsolatedId\<close> to \<^verbatim>\<open>null\<close>, and changes nothing
  else; it leaves the store as it was exactly when these three fields had those values
  already.
\<close>

theorem toggleIsolationMode_no_selection_amended:
  assumes "selectedId st = None"
  shows "toggleIsolationMode st =
           Inr (st\<lparr>hiddenObjects := {}, isolationMode := False, individualIsolatedId := None\<rparr>) \<and>
         (toggleIsolationMode st = Inr st \<longleftrightarrow>
            hiddenObjects st = {} \<and> \<not> isolationMode st \<and> individualIsolatedId st = None)"
proof -
  have e: "toggleIsolationMode st =
           Inr (st\<lparr>hiddenObjects := {}, isolationMode := False, individualIsolatedId := None\<rparr>)"
    using assms by (simp add: toggleIsolationMode_def)
  have "(st\<lparr>hiddenObjects := {}, isolationMode := False, individualIsolatedId := None\<rparr> = st) \<longleftrightarrow>
        (hiddenObjects st = {} \<and> \<not> isolationMode st \<and> individualIsolatedId st = None)"
    by (cases st) auto
  with e show ?thesis by simp
qed

theorem toggleIsolationMode_no_selection_witness:
  "selectedId storeWithNHidden = None \<and>
   hiddenObjects storeWithNHidden = {''n''} \<and>
   hiddenObjects (storeAfter storeWithNHidden (toggleIsolationMode storeWithNHidden)) = {} \<and>
   \<not> isolationMode (storeAfter storeWithNHidden (toggleIsolationMode storeWithNHidden))"
proof -
  have n: "selectedId storeWithNHidden = None"
    by (simp add: store_defs example_defs Let_def)
  have h: "hiddenObjects storeWithNHidden = {''n''}"
    by (simp add: store_defs example_defs Let_def)
  from toggleIsolationMode_no_selection_amended [OF n] n h show ?thesis
    by (simp add: storeAfter_def)
qed

text \<open>
  C3 as stated fails: with nothing selected and \<open>n\<close> hidden, \<^verbatim>\<open>toggleIsolationMode()\<close>
  empties the hidden set.
\<close>

theorem toggleIsolationMode_no_selection_counterexample:
  "selectedId storeWithNHidden = None \<and>
   hiddenObjects storeWithNHidden = {''n''} \<and>
   hiddenObjects (storeAfter storeWithNHidden (toggleIsolationMode storeWithNHidden)) = {}"
  by (simp add: store_defs example_defs Let_def)

text \<open>
  C4 at a run of the store: after loading the example scene, selecting \<open>g\<close> and entering
  global isolation, \<^verbatim>\<open>toggleIndividualIsolation("n")\<close> enters individual isolation and
  leaves \<^verbatim>\<open>isolationMode\<close> true, so both isolation modes are active at once.
\<close>

theorem both_isolation_modes_active:
  "isolationMode (run (\<lambda>n. n)
      [SetObjectMap (Some exampleMap), SetSelectedById ''g'', ToggleIsolationMode,
       ToggleIndividualIsolation ''n''] initialStore) \<and>
   individualIsolatedId (run (\<lambda>n. n)
      [SetObjectMap (Some exampleMap), SetSelectedById ''g'', ToggleIsolationMode,
       ToggleIndividualIsolation ''n''] initialStore) = Some ''n''"
  by (simp add: store_defs example_defs Let_def)

section \<open>Visibility\<close>

text \<open>
  C5, as the code has it. For an id registered in the object map for the object of that
  uuid, two calls of \<^verbatim>\<open>toggleVisibility(id)\<close> in a row return without raising and give back
  the hidden set they started from exactly when the object and its descendants were all
  hidden or all visible before. \<^verbatim>\<open>showAll()\<close> twice is \<^verbatim>\<open>showAll()\<close> once: the hidden set is
  empty and both isolation flags are cleared.
\<close>

theorem double_toggle_amended:
  "(objectMapRef st ident = Some obj \<and> uuid obj = ident \<longrightarrow>
      \<not> isl (toggleVisibility ident st) \<and>
      \<not> isl (toggleVisibility ident (storeAfter st (toggleVisibility ident st))) \<and>
      (hiddenObjects
         (storeAfter (storeAfter st (toggleVisibility ident st))
            (toggleVisibility ident (storeAfter st (toggleVisibility ident st))))
         = hiddenObjects st
         \<longleftrightarrow> uuid ` set (traverse obj) \<subseteq> hiddenObjects st
             \<or> uuid ` set (traverse obj) \<inter> hiddenObjects st = {})) \<and>
   showAll (showAll st) = showAll st \<and>
   hiddenObjects (showAll st) = {} \<and> \<not> isolationMode (showAll st) \<and>
   individualIsolatedId (showAll st) = None"
proof -
  have "\<not> isl (toggleVisibility ident st) \<and>
      \<not> isl (toggleVisibility ident (storeAfter st (toggleVisibility ident st))) \<and>
      (hiddenObjects
         (storeAfter (storeAfter st (toggleVisibility ident st))
            (toggleVisibility ident (storeAfter st (toggleVisibility ident st))))
         = hiddenObjects st
         \<longleftrightarrow> uuid ` set (traverse obj) \<subseteq> hiddenObjects st
             \<or> uuid ` set (traverse obj) \<inter> hiddenObjects st = {})"
    if m: "objectMapRef st ident = Some obj" and u: "uuid obj = ident"
  proof -
    have i: "ident \<in> uuid ` set (traverse obj)"
      using traverse_self [of obj] u by force
    let ?st1 = "storeAfter st (toggleVisibility ident st)"
    have s1: "?st1 = st\<lparr>hiddenObjects :=
            (if ident \<in> hiddenObjects st then hiddenObjects st - uuid ` set (traverse obj)
             else hiddenObjects st \<union> uuid ` set (traverse obj))\<rparr>"
      by (simp add: toggleVisibility_registered [OF m] storeAfter_Inr)
    have m': "objectMapRef ?st1 ident = Some obj"
      using m by (simp add: s1)
    have h1: "hiddenObjects ?st1 =
            (if ident \<in> hiddenObjects st then hiddenObjects st - uuid ` set (traverse obj)
             else hiddenObjects st \<union> uuid ` set (traverse obj))"
      by (simp add: s1)
    have h2: "hiddenObjects (storeAfter ?st1 (toggleVisibility ident ?st1)) =
            (if ident \<in> hiddenObjects ?st1 then hiddenObjects ?st1 - uuid ` set (traverse obj)
             else hiddenObjects ?st1 \<union> uuid ` set (traverse obj))"
      by (subst toggleVisibility_registered [OF m']) (simp add: storeAfter_Inr)
    have r: "\<not> isl (toggleVisibility ident st)" "\<not> isl (toggleVisibility ident ?st1)"
      by (simp add: toggleVisibility_registered [OF m])
        (subst toggleVisibility_registered [OF m'], simp)
    have "hiddenObjects (storeAfter ?st1 (toggleVisibility ident ?st1)) = hiddenObjects st
         \<longleftrightarrow> uuid ` set (traverse obj) \<subseteq> hiddenObjects st
             \<or> uuid ` set (traverse obj) \<inter> hiddenObjects st = {}"
      unfolding h2 h1 using i by auto
    with r show ?thesis by blast
  qed
  then show ?thesis by (simp add: showAll_def)
qed

theorem double_toggle_witness:
  "objectMapRef loadedStore ''g'' = Some groupG \<and> uuid groupG = ''g'' \<and>
   uuid ` set (traverse groupG) \<inter> hiddenObjects loadedStore = {} \<and>
   hiddenObjects
     (storeAfter (storeAfter loadedStore (toggleVisibility ''g'' loadedStore))
        (toggleVisibility ''g'' (storeAfter loadedStore (toggleVisibility ''g'' loadedStore))))
     = hiddenObjects loadedStore"
proof -
  have m: "objectMapRef loadedStore ''g'' = Some groupG" and u: "uuid groupG = ''g''"
    and h: "hiddenObjects loadedStore = {}"
    by (simp_all add: store_defs example_defs Let_def)
  from double_toggle_amended [of loadedStore "''g''" groupG] m u h show ?thesis
    by simp
qed

text \<open>
  C5 as stated fails: with only the mesh \<open>m\<close> hidden, toggling its group \<open>g\<close> twice ends
  with nothing hidden.
\<close>

theorem double_toggle_counterexample:
  "objectMapRef (run (\<lambda>n. n) [SetObjectMap (Some exampleMap), ToggleVisibility ''m''] initialStore)
     ''g'' = Some groupG \<and>
   hiddenObjects (run (\<lambda>n. n) [SetObjectMap (Some exampleMap), ToggleVisibility ''m''] initialStore)
     = {''m''} \<and>
   hiddenObjects (run (\<lambda>n. n)
      [SetObjectMap (Some exampleMap), ToggleVisibility ''m'', ToggleVisibility ''g'',
       ToggleVisibility ''g''] initialStore)
     = {}"
  by (auto simp: store_defs example_defs Let_def)

text \<open>
  C10. For every id, \<^verbatim>\<open>toggleVisibility(id)\<close> changes no field of the store but
  \<^verbatim>\<open>hiddenObjects\<close>: the selection, the isolation flags, the explosion factor and the items
  are as before, whatever is selected.
\<close>

theorem toggleVisibility_frame:
  "storeAfter st (toggleVisibility ident st) =
     st\<lparr>hiddenObjects := hiddenObjects (storeAfter st (toggleVisibility ident st))\<rparr> \<and>
   selectedItem (storeAfter st (toggleVisibility ident st)) = selectedItem st \<and>
   selectedId (storeAfter st (toggleVisibility ident st)) = selectedId st \<and>
   selectedIds (storeAfter st (toggleVisibility ident st)) = selectedIds st \<and>
   isolationMode (storeAfter st (toggleVisibility ident st)) = isolationMode st \<and>
   individualIsolatedId (storeAfter st (toggleVisibility ident st)) = individualIsolatedId st \<and>
   explosionFactor (storeAfter st (toggleVisibility ident st)) = explosionFactor st \<and>
   items (storeAfter st (toggleVisibility ident st)) = items st"
  by (simp add: toggleVisibility_def storeAfter_def Let_def split: property.split)

text \<open>Hiding the group that is selected leaves it selected.\<close>

theorem toggleVisibility_frame_witness:
  "selectedId (setSelectedById ''g'' loadedStore) = Some ''g'' \<and>
   selectedIds (setSelectedById ''g'' loadedStore) = IdList [''m''] \<and>
   hiddenObjects
     (storeAfter (setSelectedById ''g'' loadedStore)
        (toggleVisibility ''g'' (setSelectedById ''g'' loadedStore))) = {''g'', ''m''} \<and>
   selectedId
     (storeAfter (setSelectedById ''g'' loadedStore)
        (toggleVisibility ''g'' (setSelectedById ''g'' loadedStore))) = Some ''g'' \<and>
   selectedIds
     (storeAfter (setSelectedById ''g'' loadedStore)
        (toggleVisibility ''g'' (setSelectedById ''g'' loadedStore))) = IdList [''m'']"
  using toggleVisibility_frame [of "setSelectedById ''g'' loadedStore" "''g''"]
  by (auto simp: store_defs example_defs buildMeshDescendantsCache_def Let_def)

section \<open>The explosion factor\<close>

lemma setExplosionFactor_value:
  "explosionFactor (setExplosionFactor toNumber v st) =
     (case toNumber v of Finite r \<Rightarrow> Finite (min (max r 0) 1) | _ \<Rightarrow> Finite 0)"
  by (cases "toNumber v") (simp_all add: setExplosionFactor_def)

lemma explosionFactor_step:
  "inUnitInterval (explosionFactor st) \<Longrightarrow>
   inUnitInterval (explosionFactor (apply_operation toNumber op st))"
proof (cases op)
  case (SetExplosionFactor v)
  then show ?thesis
    by (cases "toNumber v") (simp_all add: setExplosionFactor_def)
qed (auto simp: action_defs Let_def split: option.splits property.splits sum.splits)

lemma explosionFactor_run:
  "inUnitInterval (explosionFactor st) \<Longrightarrow> inUnitInterval (explosionFactor (run toNumber ops st))"
  by (induction ops arbitrary: st) (auto simp: explosionFactor_step)

text \<open>
  C9. \<^verbatim>\<open>setExplosionFactor\<close> stores 0 when the coerced input is not finite and the input
  clamped into [0, 1] when it is: NaN gives 0 and 1.5 gives 1 (a number is coerced to
  itself). The stored factor is a finite number in [0, 1] after the call and after every
  sequence of store operations.
\<close>

theorem explosionFactor_clamped:
  "explosionFactor (setExplosionFactor toNumber v st) =
     (case toNumber v of Finite r \<Rightarrow> Finite (min (max r 0) 1) | _ \<Rightarrow> Finite 0) \<and>
   explosionFactor (setExplosionFactor (\<lambda>n. n) NaN st) = Finite 0 \<and>
   explosionFactor (setExplosionFactor (\<lambda>n. n) (Finite 1.5) st) = Finite 1 \<and>
   inUnitInterval (explosionFactor (setExplosionFactor toNumber v st)) \<and>
   inUnitInterval (explosionFactor (run toNumber ops initialStore))"
proof -
  have "inUnitInterval (explosionFactor (setExplosionFactor toNumber v st))"
    by (cases "toNumber v") (simp_all add: setExplosionFactor_def)
  moreover have "inUnitInterval (explosionFactor (run toNumber ops initialStore))"
    by (rule explosionFactor_run) (simp add: initialStore_def)
  ultimately show ?thesis
    by (simp add: setExplosionFactor_value)
qed

theorem explosionFactor_clamped_witness:
  "explosionFactor (run (\<lambda>n. n)
      [SetExplosionFactor (Finite 0.25), SetExplosionFactor PosInfinity,
       SetExplosionFactor (Finite (- 3)), SetExplosionFactor (Finite 7)] initialStore) = Finite 1 \<and>
   explosionFactor (setExplosionFactor (\<lambda>n. n) NegInfinity initialStore) = Finite 0"
  using explosionFactor_clamped [of "\<lambda>n. n" NegInfinity initialStore
      "[SetExplosionFactor (Finite 0.25), SetExplosionFactor PosInfinity,
        SetExplosionFactor (Finite (- 3)), SetExplosionFactor (Finite 7)]"]
  by (simp add: setExplosionFactor_def)

section \<open>The node selection implements the ladder\<close>

lemma fold_found:
  "fold (\<lambda>child found. if isMesh child then True else found) xs b
     = (b \<or> (\<exists>c \<in> set xs. isMesh c))"
  by (induction xs arbitrary: b) auto

lemma hasMeshDescendant_containsMesh: "hasMeshDescendant = containsMesh_spec"
  by (rule ext) (simp add: hasMeshDescendant_def containsMesh_spec_def fold_found)

lemma fold_push_mesh:
  "fold (\<lambda>obj meshes. if isMesh obj then meshes @ [obj] else meshes) xs acc
     = acc @ filter isMesh xs"
  by (induction xs arbitrary: acc) auto

lemma getMeshNodes_allMeshes: "getMeshNodes rootObj = allMeshes_spec rootObj"
  by (simp add: getMeshNodes_def allMeshes_spec_def fold_push_mesh)

lemma fold_push: "fold (\<lambda>obj nodes. nodes @ [obj]) xs acc = acc @ xs"
  by (induction xs arbitrary: acc) auto

lemma filter_not_key_snoc:
  "filter (\<lambda>q. uuid q \<notin> fst ` set (acc @ [(k, v)])) ys =
   filter (\<lambda>q. uuid q \<noteq> k) (filter (\<lambda>q. uuid q \<notin> fst ` set acc) ys)"
  by (induction ys) auto

lemma fold_parentsByUuid:
  "map snd
     (fold (\<lambda>(obj, par) parentsByUuid.
              case par of
                None \<Rightarrow> parentsByUuid
              | Some p \<Rightarrow>
                  if \<not> isMesh obj then parentsByUuid
                  else if uuid p \<in> fst ` set parentsByUuid then parentsByUuid
                  else parentsByUuid @ [(uuid p, p)]) xs acc)
   = map snd acc @ unique_spec (filter (\<lambda>q. uuid q \<notin> fst ` set acc)
        (List.map_filter (\<lambda>(obj, par). if isMesh obj then par else None) xs))"
proof (induction xs arbitrary: acc)
  case Nil
  then show ?case by (simp add: List.map_filter_simps)
next
  case (Cons x xs)
  obtain obj par where x: "x = (obj, par)" by (cases x)
  show ?case
  proof (cases par)
    case None
    with x Cons show ?thesis by (simp add: List.map_filter_simps)
  next
    case (Some p)
    show ?thesis
    proof (cases "isMesh obj")
      case False
      with x Some Cons show ?thesis by (simp add: List.map_filter_simps)
    next
      case True
      show ?thesis
      proof (cases "uuid p \<in> fst ` set acc")
        case True
        with x Some \<open>isMesh obj\<close> Cons show ?thesis by (simp add: List.map_filter_simps)
      next
        case False
        note IH = Cons.IH [of "acc @ [(uuid p, p)]", unfolded filter_not_key_snoc]
        from x Some \<open>isMesh obj\<close> False show ?thesis
          by (simp add: List.map_filter_simps IH del: filter_filter)
      qed
    qed
  qed
qed

lemma getUniqueMeshParents_unique:
  "getUniqueMeshParents rootParent rootObj = unique_spec (meshParents_spec rootParent rootObj)"
  using fold_parentsByUuid [of _ "[]"]
  by (simp add: getUniqueMeshParents_def meshParents_spec_def)

lemma set_unique_spec: "set (unique_spec ps) \<subseteq> set ps"
  by (induction ps rule: unique_spec.induct) auto

lemma traverseWithParent_parent:
  "(d, Some p) \<in> set (traverseWithParent par obj) \<Longrightarrow>
   (d = obj \<and> par = Some p) \<or> d \<in> set (children p)"
proof (induction par obj rule: traverseWithParent.induct)
  case (1 par u n t m p' cs)
  then show ?case by fastforce
qed

lemma meshParents_containsMesh:
  assumes "attachedTo rootParent rootObj" "p \<in> set (meshParents_spec rootParent rootObj)"
  shows "containsMesh_spec p"
proof -
  from assms(2) obtain d where
    d: "(d, Some p) \<in> set (traverseWithParent rootParent rootObj)" "isMesh d"
    by (auto simp: meshParents_spec_def List.map_filter_def split: if_splits)
  from traverseWithParent_parent [OF d(1)] assms(1) have "d \<in> set (children p)"
    by auto
  then have "d \<in> set (traverse p)"
    using traverse_child [of d p] traverse_self [of d] by auto
  with d(2) show ?thesis by (auto simp: containsMesh_spec_def)
qed

text \<open>
  C8. On a consistent scene graph the node selection of \<^verbatim>\<open>buildExplosionTargets\<close>
  (\<^verbatim>\<open>pickExplosionNodes\<close> and the replacement of an empty list) returns what the ladder
  describes: the root's children that contain a mesh; with at most one such group, that
  group's mesh-bearing children when there are any; with fewer than 6 groups, the
  deduplicated immediate parents of the meshes exactly when they are strictly more; with
  fewer than 3 groups, the flat list of all meshes; and all meshes for an empty list.
\<close>

theorem pickExplosionNodes_ladder:
  assumes "attachedTo rootParent rootObj"
  shows "explosionNodes rootParent rootObj = ladder_spec rootParent rootObj"
proof -
  have "filter containsMesh_spec (unique_spec (meshParents_spec rootParent rootObj))
          = unique_spec (meshParents_spec rootParent rootObj)"
    using meshParents_containsMesh [OF assms]
      set_unique_spec [of "meshParents_spec rootParent rootObj"]
    by (auto simp: filter_id_conv)
  then show ?thesis
    by (auto simp: explosionNodes_def pickExplosionNodes_def ladder_spec_def
      hasMeshDescendant_containsMesh getMeshNodes_allMeshes getUniqueMeshParents_unique
      fold_push Let_def split: list.splits)
qed

text \<open>
  The deeper model has a single usable group below its root and a single one below that;
  the three parents of its meshes are more, and they are the selection. The first example
  has two usable groups and as many mesh parents, and falls through to its two meshes.
\<close>

theorem pickExplosionNodes_ladder_witness:
  "attachedTo None deepRoot \<and>
   explosionNodes None deepRoot = [partA, partB, partC] \<and>
   attachedTo (Some canvasScene) rootR \<and>
   explosionNodes (Some canvasScene) rootR = [meshM, meshN]"
proof -
  have a: "attachedTo None deepRoot"
    by simp
  have l: "ladder_spec None deepRoot = [partA, partB, partC]"
    by (simp add: ladder_spec_def containsMesh_spec_def allMeshes_spec_def meshParents_spec_def
      List.map_filter_simps deep_defs Let_def)
  have a': "attachedTo (Some canvasScene) rootR"
    by (simp add: canvasScene_def)
  have l': "ladder_spec (Some canvasScene) rootR = [meshM, meshN]"
    by (simp add: ladder_spec_def containsMesh_spec_def allMeshes_spec_def meshParents_spec_def
      List.map_filter_simps example_defs Let_def)
  from pickExplosionNodes_ladder [OF a] pickExplosionNodes_ladder [OF a'] a l a' l'
  show ?thesis
    by simp
qed

end
